theory Spec2Isabelle
  imports Complex_Main "HOL-Library.AList"
begin

section \<open>Strings and numbers of the platform\<close>

text \<open>
  A JavaScript string is modelled as a \<^typ>\<open>string\<close>, one \<^typ>\<open>char\<close> per code unit
  (code units \<open>0x00\<close> to \<open>0xFF\<close>); a JavaScript number is modelled as a \<^typ>\<open>real\<close>
  (no rounding, no \<open>NaN\<close>, no infinities), a byte size and a count as a \<^typ>\<open>nat\<close>.
\<close>

definition is_space :: "char \<Rightarrow> bool" where
  \<comment> \<open>The class \<open>\s\<close> of a regular expression, which is also what \<open>trim\<close> removes:
      TAB, LF, VT, FF, CR, SPACE and NBSP among the code units below \<open>0x100\<close>.\<close>
  "is_space c = (c \<in> {CHR 0x09, CHR 0x0A, CHR 0x0B, CHR 0x0C, CHR 0x0D, CHR 0x20, CHR 0xA0})"

function split_from :: "string \<Rightarrow> string \<Rightarrow> string list" where
  \<comment> \<open>\<open>split(/\s+/)\<close>, scanning left to right: the first argument is the piece read so
      far; a maximal run of white space closes it and opens a new (empty) one.\<close>
  "split_from cur [] = [cur]"
| "split_from cur (c # cs) =
     (if is_space c then cur # split_from [] (dropWhile is_space cs)
      else split_from (cur @ [c]) cs)"
  by pat_completeness auto
termination
  by (relation "measure (\<lambda>(cur, s). length s)")
     (auto simp: length_dropWhile_le less_Suc_eq_le)

definition split_ws :: "string \<Rightarrow> string list" where
  "split_ws s = split_from [] s"

definition countWords :: "string \<Rightarrow> nat" where
  \<comment> \<open>\<open>transcript.split(/\s+/).filter(w => w.length > 0).length\<close>\<close>
  "countWords s = length (filter (\<lambda>w. length w > 0) (split_ws s))"

definition trim :: "string \<Rightarrow> string" where
  \<comment> \<open>\<open>String.prototype.trim\<close>\<close>
  "trim s = rev (dropWhile is_space (rev (dropWhile is_space s)))"

definition startsWith :: "string \<Rightarrow> string \<Rightarrow> bool" where
  "startsWith s p = (take (length p) s = p)"

definition endsWith :: "string \<Rightarrow> string \<Rightarrow> bool" where
  "endsWith s p = (length p \<le> length s \<and> drop (length s - length p) s = p)"

definition js_round :: "real \<Rightarrow> int" where
  \<comment> \<open>\<open>Math.round\<close>: the nearest integer, a half rounded up.\<close>
  "js_round x = \<lfloor>x + 1 / 2\<rfloor>"

section \<open>The static analysis service\<close>

record Blob =
  blob_size :: nat

record AudioLevelData =
  lvl_maxRms :: real
  sumRms :: real
  frames :: real

record AudioMetrics =
  duration :: real
  hasVoice :: bool
  transcript :: string
  wordCount :: nat
  avgRms :: real
  maxRms :: real

datatype Efficiency = excellent | good | average | poor

record Feedback =
  strengths :: "string list"
  weaknesses :: "string list"
  suggestions :: "string list"
  detailedFeedback :: string

record Scores =
  clarity :: real
  relevance :: real
  "structure" :: real
  completeness :: real
  confidence :: real

record KeyPoints =
  covered :: "string list"
  missed :: "string list"

record TimeManagement =
  tm_duration :: real
  efficiency :: Efficiency
  pacing :: string

record AnswerAnalysis =
  overallScore :: real
  ans_transcript :: string
  feedback :: Feedback
  scores :: Scores
  keyPoints :: KeyPoints
  timeManagement :: TimeManagement
  processingTime :: real

definition analyzeAudioMetrics ::
  "Blob \<Rightarrow> real \<Rightarrow> string \<Rightarrow> AudioLevelData \<Rightarrow> AudioMetrics" where
  "analyzeAudioMetrics audioBlob dur text audioLevelData =
     (let wc = countWords text;
          avg = (if frames audioLevelData > 0 then sumRms audioLevelData / frames audioLevelData else 0);
          mx = lvl_maxRms audioLevelData;
          bytesPerSecond = (if dur > 0 then real (blob_size audioBlob) / dur else 0);
          hasAudioSignal = (dur > 0 \<and> blob_size audioBlob \<ge> 2000 \<and> bytesPerSecond \<ge> 300
                            \<and> (mx \<ge> 0.015 \<or> avg \<ge> 0.008));
          hv = (hasAudioSignal \<or> wc > 0)
      in \<lparr>duration = dur, hasVoice = hv, transcript = text, wordCount = wc,
          avgRms = avg, maxRms = mx\<rparr>)"

definition generateStaticAnalysis :: "AudioMetrics \<Rightarrow> AnswerAnalysis" where
  "generateStaticAnalysis metrics =
     (let dur = duration metrics; hv = hasVoice metrics; text = transcript metrics;
          isShort = (dur < 10);
          score = (if \<not> hv then 0 else if isShort then 20 else 50)
      in \<lparr>overallScore = score,
          ans_transcript =
            (if text \<noteq> [] then text
             else if hv then ''[Voice detected but transcript unavailable]''
             else ''[No voice detected]''),
          feedback = \<lparr>
            strengths = (if hv then [''Audio captured successfully''] else []),
            weaknesses =
              (if \<not> hv then [''No voice detected'']
               else if isShort then [''Response is very short'']
               else [''AI analysis temporarily unavailable'']),
            suggestions =
              (if \<not> hv then [''Check microphone settings'']
               else [''Try recording a longer, more detailed response'']),
            detailedFeedback =
              (if \<not> hv
               then ''We could not detect any voice in your recording. Please ensure your microphone is working and speak clearly.''
               else ''Your response has been captured. For a full AI-powered analysis with strengths and weaknesses, please ensure you have a stable connection and provide a detailed answer.'')\<rparr>,
          scores = \<lparr>
            clarity = (if hv then 60 else 0),
            relevance = (if hv then 50 else 0),
            structure = (if hv then 40 else 0),
            completeness = (if hv then 30 else 0),
            confidence = (if hv then 50 else 0)\<rparr>,
          keyPoints = \<lparr>covered = [], missed = []\<rparr>,
          timeManagement = \<lparr>
            tm_duration = dur,
            efficiency = (if dur > 45 then good else average),
            pacing = (if hv then ''Pacing detected'' else ''N/A'')\<rparr>,
          processingTime = 100\<rparr>)"

record QuickFeedback =
  qf_wordCount :: nat
  qf_duration :: real
  wordsPerMinute :: int
  estimatedScore :: int
  quickTips :: "string list"

definition getQuickTips :: "nat \<Rightarrow> real \<Rightarrow> string list" where
  "getQuickTips wc dur =
     (if dur > 0 \<and> dur < 30 then [''Aim for a longer response''] else [])
     @ (if wc > 0 \<and> wc < 50 then [''Add more specific examples''] else [])"

definition generateQuickFeedback :: "string \<Rightarrow> real \<Rightarrow> QuickFeedback" where
  "generateQuickFeedback text dur =
     (let wc = countWords text;
          wpm = (if dur > 0 then js_round ((real wc / dur) * 60) else 0)
      in \<lparr>qf_wordCount = wc,
          qf_duration = dur,
          wordsPerMinute = wpm,
          estimatedScore = min (max (js_round ((real wc / 100) * 80 + 20)) 20) 95,
          quickTips = getQuickTips wc dur\<rparr>)"

section \<open>Values at run time\<close>

text \<open>
  What \<open>JSON.parse\<close> returns has the static type \<open>any\<close>: a value that is null, a boolean,
  a number, a string, an array or an object, and \<open>undefined\<close> where a property is missing.
  An object is the list of its own properties; looking a key up takes the first entry.
\<close>

datatype jsval =
    JUndefined
  | JNull
  | JBool bool
  | JNum real
  | JStr string
  | JArr "jsval list"
  | JObj "(string \<times> jsval) list"

function show_nat :: "nat \<Rightarrow> string" where
  \<comment> \<open>The decimal numeral of a natural number, as a template literal or a property key
      prints it.\<close>
  "show_nat n =
     (if n < 10 then [''0123456789'' ! n]
      else show_nat (n div 10) @ [''0123456789'' ! (n mod 10)])"
  by pat_completeness auto
termination
  by (relation "measure (\<lambda>n. n)") auto

declare show_nat.simps [simp del]

fun truthy :: "jsval \<Rightarrow> bool" where
  "truthy JUndefined = False"
| "truthy JNull = False"
| "truthy (JBool b) = b"
| "truthy (JNum x) = (x \<noteq> 0)"
| "truthy (JStr s) = (s \<noteq> [])"
| "truthy (JArr xs) = True"
| "truthy (JObj kvs) = True"

fun nullish :: "jsval \<Rightarrow> bool" where
  "nullish JUndefined = True"
| "nullish JNull = True"
| "nullish v = False"

fun ownProperties :: "jsval \<Rightarrow> (string \<times> jsval) list" where
  \<comment> \<open>The own enumerable properties, which are what an object spread \<open>{...v}\<close> copies:
      the entries of an object, the indexed elements of an array, the indexed code units
      of a string, and nothing for the other values.\<close>
  "ownProperties (JObj kvs) = kvs"
| "ownProperties (JArr xs) = zip (map show_nat [0..<length xs]) xs"
| "ownProperties (JStr s) = zip (map show_nat [0..<length s]) (map (\<lambda>c. JStr [c]) s)"
| "ownProperties v = []"

definition getProp :: "jsval \<Rightarrow> string \<Rightarrow> jsval" where
  \<comment> \<open>\<open>v.k\<close> and \<open>v[0]\<close> on a value that is neither null nor undefined. The keys the
      source reads (\<open>candidates\<close>, \<open>0\<close>, \<open>content\<close>, \<open>parts\<close>, \<open>text\<close>, \<open>response\<close>,
      \<open>timeManagement\<close>) are inherited from no prototype, so only own properties count.\<close>
  "getProp v k = (case map_of (ownProperties v) k of Some x \<Rightarrow> x | None \<Rightarrow> JUndefined)"

definition optGet :: "jsval \<Rightarrow> string \<Rightarrow> jsval" where
  \<comment> \<open>Optional chaining \<open>v?.k\<close>\<close>
  "optGet v k = (if nullish v then JUndefined else getProp v k)"

definition js_of_Efficiency :: "Efficiency \<Rightarrow> jsval" where
  "js_of_Efficiency e =
     JStr (case e of excellent \<Rightarrow> ''excellent'' | good \<Rightarrow> ''good''
                   | average \<Rightarrow> ''average'' | poor \<Rightarrow> ''poor'')"

definition js_of_AnswerAnalysis :: "AnswerAnalysis \<Rightarrow> jsval" where
  \<comment> \<open>The object that an \<open>AnswerAnalysis\<close> literal is at run time.\<close>
  "js_of_AnswerAnalysis a =
     JObj [
       (''overallScore'', JNum (overallScore a)),
       (''transcript'', JStr (ans_transcript a)),
       (''feedback'', JObj [
          (''strengths'', JArr (map JStr (strengths (feedback a)))),
          (''weaknesses'', JArr (map JStr (weaknesses (feedback a)))),
          (''suggestions'', JArr (map JStr (suggestions (feedback a)))),
          (''detailedFeedback'', JStr (detailedFeedback (feedback a)))]),
       (''scores'', JObj [
          (''clarity'', JNum (clarity (scores a))),
          (''relevance'', JNum (relevance (scores a))),
          (''structure'', JNum (structure (scores a))),
          (''completeness'', JNum (completeness (scores a))),
          (''confidence'', JNum (confidence (scores a)))]),
       (''keyPoints'', JObj [
          (''covered'', JArr (map JStr (covered (keyPoints a)))),
          (''missed'', JArr (map JStr (missed (keyPoints a))))]),
       (''timeManagement'', JObj [
          (''duration'', JNum (tm_duration (timeManagement a))),
          (''efficiency'', js_of_Efficiency (efficiency (timeManagement a))),
          (''pacing'', JStr (pacing (timeManagement a)))]),
       (''processingTime'', JNum (processingTime a))]"

fun is_num :: "jsval \<Rightarrow> bool" where
  "is_num (JNum x) = True"
| "is_num v = False"

fun is_str :: "jsval \<Rightarrow> bool" where
  "is_str (JStr s) = True"
| "is_str v = False"

fun is_str_array :: "jsval \<Rightarrow> bool" where
  "is_str_array (JArr xs) = list_all is_str xs"
| "is_str_array v = False"

definition populated :: "jsval \<Rightarrow> bool" where
  \<comment> \<open>Every field of the interface \<open>AnswerAnalysis\<close> is there, with a value of its type.\<close>
  "populated v =
     (is_num (getProp v ''overallScore'')
      \<and> is_str (getProp v ''transcript'')
      \<and> (let f = getProp v ''feedback''
         in is_str_array (getProp f ''strengths'')
          \<and> is_str_array (getProp f ''weaknesses'')
          \<and> is_str_array (getProp f ''suggestions'')
          \<and> is_str (getProp f ''detailedFeedback''))
      \<and> (let s = getProp v ''scores''
         in is_num (getProp s ''clarity'')
          \<and> is_num (getProp s ''relevance'')
          \<and> is_num (getProp s ''structure'')
          \<and> is_num (getProp s ''completeness'')
          \<and> is_num (getProp s ''confidence''))
      \<and> (let k = getProp v ''keyPoints''
         in is_str_array (getProp k ''covered'')
          \<and> is_str_array (getProp k ''missed''))
      \<and> (let t = getProp v ''timeManagement''
         in is_num (getProp t ''duration'')
          \<and> getProp t ''efficiency'' \<in> set (map js_of_Efficiency [excellent, good, average, poor])
          \<and> is_str (getProp t ''pacing''))
      \<and> is_num (getProp v ''processingTime''))"

definition remote_supplied :: "jsval \<Rightarrow> bool" where
  \<comment> \<open>Every field of \<open>AnswerAnalysis\<close> that the remote client does not fill in itself
      (all but \<open>transcript\<close>, \<open>timeManagement.duration\<close> and \<open>processingTime\<close>) is
      there, with a value of its type.\<close>
  "remote_supplied v =
     (is_num (getProp v ''overallScore'')
      \<and> (let f = getProp v ''feedback''
         in is_str_array (getProp f ''strengths'')
          \<and> is_str_array (getProp f ''weaknesses'')
          \<and> is_str_array (getProp f ''suggestions'')
          \<and> is_str (getProp f ''detailedFeedback''))
      \<and> (let s = getProp v ''scores''
         in is_num (getProp s ''clarity'')
          \<and> is_num (getProp s ''relevance'')
          \<and> is_num (getProp s ''structure'')
          \<and> is_num (getProp s ''completeness'')
          \<and> is_num (getProp s ''confidence''))
      \<and> (let k = getProp v ''keyPoints''
         in is_str_array (getProp k ''covered'')
          \<and> is_str_array (getProp k ''missed''))
      \<and> (let t = getProp v ''timeManagement''
         in getProp t ''efficiency'' \<in> set (map js_of_Efficiency [excellent, good, average, poor])
          \<and> is_str (getProp t ''pacing'')))"

section \<open>The remote analysis client\<close>

datatype QuestionType = behavioral | technical | situational | case_study

datatype Difficulty = easy | medium | hard

record InterviewQuestion =
  q_id :: string
  q_question :: string
  q_type :: QuestionType
  q_difficulty :: Difficulty
  q_skills :: "string list"
  q_expectedDuration :: real
  q_category :: string

record AnalysisRequest =
  req_transcript :: string
  question :: InterviewQuestion
  audioDuration :: real
  transcriptionConfidence :: real
  audioBlob :: "Blob option"
  audioLevelData :: "AudioLevelData option"

datatype js_error = Error string | TypeError | SyntaxError

record http_response =
  status :: nat
  body :: string

definition ok :: "http_response \<Rightarrow> bool" where
  \<comment> \<open>\<open>response.ok\<close>: the status is in the range 200 to 299.\<close>
  "ok response = (200 \<le> status response \<and> status response \<le> 299)"

datatype endpoint = DirectAPI | ServerProxy

text \<open>
  What the client takes from its surroundings during one call: the platform's
  \<open>JSON.parse\<close> (\<open>None\<close> where it throws a \<open>SyntaxError\<close>), the configured key
  (\<open>None\<close> where the environment has none), the outcome of a \<open>fetch\<close> to either endpoint
  (a rejection, or a response of any status and body), and the two readings of
  \<open>Date.now()\<close>. The prompt is put together from the fields of the request by string
  interpolation, which cannot fail; it decides only what is sent, and any reply to it is
  allowed here.
\<close>

record world =
  JSON_parse :: "string \<Rightarrow> jsval option"
  GEMINI_KEY :: "string option"
  fetch :: "endpoint \<Rightarrow> js_error + http_response"
  now_start :: int
  now_received :: int

definition sendPrompt :: "world \<Rightarrow> js_error + http_response" where
  \<comment> \<open>The direct call when a key is configured and starts with \<open>AIza\<close>, the server
      proxy otherwise.\<close>
  "sendPrompt w =
     (case GEMINI_KEY w of
        Some key \<Rightarrow>
          if key \<noteq> [] \<and> startsWith key ''AIza'' then fetch w DirectAPI
          else fetch w ServerProxy
      | None \<Rightarrow> fetch w ServerProxy)"

definition fetchData :: "world \<Rightarrow> js_error + jsval" where
  \<comment> \<open>From the \<open>fetch\<close> to \<open>const data = await response.json()\<close>.\<close>
  "fetchData w =
     (case sendPrompt w of
        Inl e \<Rightarrow> Inl e
      | Inr response \<Rightarrow>
          if \<not> ok response
          then Inl (Error (''Gemini API error ('' @ show_nat (status response) @ ''): ''
                           @ take 100 (body response)))
          else (case JSON_parse w (body response) of
                  None \<Rightarrow> Inl SyntaxError
                | Some data \<Rightarrow> Inr data))"

definition directText :: "jsval \<Rightarrow> jsval" where
  \<comment> \<open>\<open>data.candidates[0]?.content?.parts?.[0]?.text\<close>, for \<open>data.candidates\<close> truthy\<close>
  "directText data =
     optGet (optGet (optGet (optGet (getProp (getProp data ''candidates'') ''0'')
       ''content'') ''parts'') ''0'') ''text''"

definition extractAnalysisText :: "jsval \<Rightarrow> js_error + jsval" where
  \<comment> \<open>The three recognised shapes, in the order the source tries them. Reading a
      property of \<open>null\<close> throws.\<close>
  "extractAnalysisText data =
     (if nullish data then Inl TypeError
      else if truthy (getProp data ''candidates'') \<and> truthy (directText data)
        then Inr (directText data)
      else if truthy (getProp data ''text'') then Inr (getProp data ''text'')
      else if truthy (getProp data ''response'') then Inr (getProp data ''response'')
      else Inl (Error ''No analysis results received from Gemini''))"

definition replace_open :: "string \<Rightarrow> string \<Rightarrow> string" where
  \<comment> \<open>\<open>s.replace(/^P\n?/, '')\<close> for a literal \<open>P\<close>: the prefix and one line feed after
      it, when there is one, are removed.\<close>
  "replace_open p s =
     (if startsWith s p
      then (let r = drop (length p) s in if startsWith r [CHR 0x0A] then drop 1 r else r)
      else s)"

definition replace_close :: "string \<Rightarrow> string" where
  \<comment> \<open>\<open>s.replace(/\n?```$/, '')\<close>: a match has to end at the end of \<open>s\<close>, and the leftmost
      one starts at the line feed before the three backticks when there is one.\<close>
  "replace_close s =
     (if endsWith s (CHR 0x0A # ''```'') then take (length s - 4) s
      else if endsWith s ''```'' then take (length s - 3) s
      else s)"

definition cleanText :: "string \<Rightarrow> string" where
  \<comment> \<open>Remove markdown code blocks if present.\<close>
  "cleanText analysisText =
     (let cleanedText = trim analysisText
      in if startsWith cleanedText ''```json''
           then replace_close (replace_open ''```json'' cleanedText)
         else if startsWith cleanedText ''```''
           then replace_close (replace_open ''```'' cleanedText)
         else cleanedText)"

definition analysisResult :: "world \<Rightarrow> js_error + jsval" where
  \<comment> \<open>The local \<open>analysisResult\<close>. A text that is not a string has no \<open>trim\<close> to call.\<close>
  "analysisResult w =
     (case fetchData w of
        Inl e \<Rightarrow> Inl e
      | Inr data \<Rightarrow>
          (case extractAnalysisText data of
             Inl e \<Rightarrow> Inl e
           | Inr (JStr analysisText) \<Rightarrow>
               (case JSON_parse w (cleanText analysisText) of
                  None \<Rightarrow> Inl SyntaxError
                | Some a \<Rightarrow> Inr a)
           | Inr v \<Rightarrow> Inl TypeError))"

definition buildReport :: "AnalysisRequest \<Rightarrow> int \<Rightarrow> jsval \<Rightarrow> js_error + jsval" where
  \<comment> \<open>The returned object literal. Spreading \<open>null\<close> copies nothing, reading
      \<open>null.timeManagement\<close> throws.\<close>
  "buildReport request elapsed a =
     (if nullish a then Inl TypeError
      else Inr (JObj
        (AList.update ''processingTime'' (JNum (real_of_int elapsed))
          (AList.update ''timeManagement''
             (JObj (AList.update ''duration'' (JNum (audioDuration request))
                      (ownProperties (getProp a ''timeManagement''))))
            (AList.update ''transcript'' (JStr (req_transcript request))
               (ownProperties a))))))"

definition analyzeAnswer :: "world \<Rightarrow> AnalysisRequest \<Rightarrow> js_error + jsval" where
  "analyzeAnswer w request =
     (case analysisResult w of
        Inl e \<Rightarrow> Inl e
      | Inr a \<Rightarrow> buildReport request (now_received w - now_start w) a)"

section \<open>The orchestrator\<close>

definition transcriptMetrics :: "AnalysisRequest \<Rightarrow> AudioMetrics" where
  \<comment> \<open>The metrics that the static service's own \<open>analyzeAnswer\<close> builds from the request.\<close>
  "transcriptMetrics request =
     (let wc = countWords (req_transcript request)
      in \<lparr>duration = audioDuration request, hasVoice = (wc > 0),
          transcript = req_transcript request, wordCount = wc, avgRms = 0, maxRms = 0\<rparr>)"

definition static_analyzeAnswer :: "AnalysisRequest \<Rightarrow> AnswerAnalysis" where
  \<comment> \<open>\<open>StaticAnalysisService.analyzeAnswer\<close>, a promise that is already resolved.\<close>
  "static_analyzeAnswer request = generateStaticAnalysis (transcriptMetrics request)"

definition audioMetrics_of :: "AnalysisRequest \<Rightarrow> AudioMetrics option" where
  \<comment> \<open>The local \<open>audioMetrics\<close> of \<open>processAudioResponse\<close>; \<open>None\<close> is its \<open>null\<close>.\<close>
  "audioMetrics_of request =
     (case (audioBlob request, audioLevelData request) of
        (Some b, Some l) \<Rightarrow>
          Some (analyzeAudioMetrics b (audioDuration request) (req_transcript request) l)
      | _ \<Rightarrow> None)"

definition staticFallback :: "AnalysisRequest \<Rightarrow> AnswerAnalysis" where
  \<comment> \<open>The two returns after the \<open>try\<close>.\<close>
  "staticFallback request =
     (case audioMetrics_of request of
        Some m \<Rightarrow> generateStaticAnalysis m
      | None \<Rightarrow> static_analyzeAnswer request)"

definition processAudioResponse :: "world \<Rightarrow> AnalysisRequest \<Rightarrow> js_error + jsval" where
  \<comment> \<open>\<open>Inl\<close> would be an error that reaches the caller. The \<open>catch\<close> takes every error
      of the remote client and falls through to the static fallback.\<close>
  "processAudioResponse w request =
     (if length (trim (req_transcript request)) > 0
      then (case analyzeAnswer w request of
              Inr report \<Rightarrow> Inr report
            | Inl error \<Rightarrow> Inr (js_of_AnswerAnalysis (staticFallback request)))
      else Inr (js_of_AnswerAnalysis (staticFallback request)))"

section \<open>Sample surroundings\<close>

text \<open>
  Concrete requests and worlds on which the theorems below are evaluated. \<open>sample_parse\<close>
  is \<open>JSON.parse\<close> on the texts that these worlds hand to it: a table of the texts that
  parse, with their values; the other texts that occur (\<open>oops\<close>) are not JSON.
\<close>

fun json_escape :: "char \<Rightarrow> string" where
  "json_escape c =
     (if c = CHR 0x22 then [CHR 0x5C, CHR 0x22]
      else if c = CHR 0x5C then [CHR 0x5C, CHR 0x5C]
      else if c = CHR 0x0A then [CHR 0x5C, CHR ''n'']
      else [c])"

definition json_quote :: "string \<Rightarrow> string" where
  \<comment> \<open>The JSON text of a string.\<close>
  "json_quote s = [CHR 0x22] @ concat (map json_escape s) @ [CHR 0x22]"

definition remote_json :: string where
  \<open>remote_json =
     ''{"overallScore":80,"transcript":"restated","timeManagement":{"duration":1,"pacing":"steady"}}''\<close>

definition remote_value :: jsval where
  "remote_value =
     JObj [(''overallScore'', JNum 80), (''transcript'', JStr ''restated''),
           (''timeManagement'', JObj [(''duration'', JNum 1), (''pacing'', JStr ''steady'')])]"

definition fenced :: "string \<Rightarrow> string" where
  "fenced s = ''```json'' @ [CHR 0x0A] @ s @ [CHR 0x0A] @ ''```''"

definition candidates_body :: string where
  \<open>candidates_body =
     ''{"candidates":[{"content":{"parts":[{"text":'' @ json_quote (fenced remote_json) @ ''}]}}]}''\<close>

definition bare_body :: string where
  \<open>bare_body = ''{"text":"{}"}''\<close>

definition oops_body :: string where
  \<open>oops_body = ''{"text":"oops"}''\<close>

definition full_json :: string where
  \<open>full_json =
     ''{"overallScore":80,"transcript":"restated","feedback":{"strengths":["clear"],"weaknesses":[],"suggestions":["expand"],"detailedFeedback":"ok"},"scores":{"clarity":80,"relevance":70,"structure":60,"completeness":50,"confidence":90},"keyPoints":{"covered":["intro"],"missed":[]},"timeManagement":{"duration":1,"efficiency":"good","pacing":"steady"},"processingTime":0}''\<close>

definition full_value :: jsval where
  "full_value =
     JObj [(''overallScore'', JNum 80), (''transcript'', JStr ''restated''),
           (''feedback'', JObj [(''strengths'', JArr [JStr ''clear'']),
                                (''weaknesses'', JArr []),
                                (''suggestions'', JArr [JStr ''expand'']),
                                (''detailedFeedback'', JStr ''ok'')]),
           (''scores'', JObj [(''clarity'', JNum 80), (''relevance'', JNum 70),
                              (''structure'', JNum 60), (''completeness'', JNum 50),
                              (''confidence'', JNum 90)]),
           (''keyPoints'', JObj [(''covered'', JArr [JStr ''intro'']), (''missed'', JArr [])]),
           (''timeManagement'', JObj [(''duration'', JNum 1), (''efficiency'', JStr ''good''),
                                      (''pacing'', JStr ''steady'')]),
           (''processingTime'', JNum 0)]"

definition full_body :: string where
  \<open>full_body = ''{"response":'' @ json_quote full_json @ ''}''\<close>

definition sample_parse :: "string \<Rightarrow> jsval option" where
  "sample_parse =
     map_of [
       (''{}'', JObj []),
       (bare_body, JObj [(''text'', JStr ''{}'')]),
       (oops_body, JObj [(''text'', JStr ''oops'')]),
       (remote_json, remote_value),
       (candidates_body,
        JObj [(''candidates'',
               JArr [JObj [(''content'',
                            JObj [(''parts'',
                                   JArr [JObj [(''text'', JStr (fenced remote_json))]])])]])]),
       (full_json, full_value),
       (full_body, JObj [(''response'', JStr full_json)])]"

definition sample_world :: "nat \<Rightarrow> string \<Rightarrow> world" where
  \<comment> \<open>No key is configured; the proxy answers with the given status and body; 750 ms
      pass.\<close>
  "sample_world st b =
     \<lparr>JSON_parse = sample_parse, GEMINI_KEY = None,
      fetch = (\<lambda>e. Inr \<lparr>status = st, body = b\<rparr>),
      now_start = 1000, now_received = 1750\<rparr>"

definition sample_question :: InterviewQuestion where
  "sample_question =
     \<lparr>q_id = ''q1'', q_question = ''Tell me about yourself'', q_type = behavioral,
      q_difficulty = easy, q_skills = [''communication''], q_expectedDuration = 60,
      q_category = ''general''\<rparr>"

definition sample_request :: "string \<Rightarrow> AnalysisRequest" where
  \<comment> \<open>A request of 5 seconds without blob and level data.\<close>
  "sample_request text =
     \<lparr>req_transcript = text, question = sample_question, audioDuration = 5,
      transcriptionConfidence = 1, audioBlob = None, audioLevelData = None\<rparr>"

definition bare_report :: "string \<Rightarrow> jsval" where
  \<comment> \<open>What the client makes of the remote text \<open>{}\<close> for a request of 5 seconds.\<close>
  "bare_report text =
     JObj [(''transcript'', JStr text),
           (''timeManagement'', JObj [(''duration'', JNum 5)]),
           (''processingTime'', JNum 750)]"

definition remote_report :: "string \<Rightarrow> jsval" where
  \<comment> \<open>What the client makes of \<open>remote_json\<close> for a request of 5 seconds.\<close>
  "remote_report text =
     JObj [(''overallScore'', JNum 80), (''transcript'', JStr text),
           (''timeManagement'', JObj [(''duration'', JNum 5), (''pacing'', JStr ''steady'')]),
           (''processingTime'', JNum 750)]"

definition full_report :: "string \<Rightarrow> jsval" where
  \<comment> \<open>What the client makes of \<open>full_json\<close> for a request of 5 seconds.\<close>
  "full_report text =
     JObj [(''overallScore'', JNum 80), (''transcript'', JStr text),
           (''feedback'', JObj [(''strengths'', JArr [JStr ''clear'']),
                                (''weaknesses'', JArr []),
                                (''suggestions'', JArr [JStr ''expand'']),
                                (''detailedFeedback'', JStr ''ok'')]),
           (''scores'', JObj [(''clarity'', JNum 80), (''relevance'', JNum 70),
                              (''structure'', JNum 60), (''completeness'', JNum 50),
                              (''confidence'', JNum 90)]),
           (''keyPoints'', JObj [(''covered'', JArr [JStr ''intro'']), (''missed'', JArr [])]),
           (''timeManagement'', JObj [(''duration'', JNum 5), (''efficiency'', JStr ''good''),
                                      (''pacing'', JStr ''steady'')]),
           (''processingTime'', JNum 750)]"

section \<open>Words and trimming\<close>

lemma ex_dropWhile:
  "(\<exists>x \<in> set (dropWhile P xs). \<not> P x) \<longleftrightarrow> (\<exists>x \<in> set xs. \<not> P x)"
  by (induction xs) auto

lemma split_from_has_word:
  "(\<exists>w \<in> set (split_from cur s). w \<noteq> []) \<longleftrightarrow> (cur \<noteq> [] \<or> (\<exists>c \<in> set s. \<not> is_space c))"
proof (induction cur s rule: split_from.induct)
  case (1 cur)
  then show ?case by simp
next
  case (2 cur c cs)
  show ?case
  proof (cases "is_space c")
    case True
    with 2 show ?thesis by (auto simp: ex_dropWhile)
  next
    case False
    with 2 show ?thesis by auto
  qed
qed

lemma countWords_pos_iff: "countWords s > 0 \<longleftrightarrow> (\<exists>c \<in> set s. \<not> is_space c)"
proof -
  have "countWords s > 0 \<longleftrightarrow> (\<exists>w \<in> set (split_from [] s). w \<noteq> [])"
    by (auto simp: countWords_def split_ws_def filter_empty_conv
          length_greater_0_conv [symmetric] simp del: length_greater_0_conv)
  then show ?thesis by (simp add: split_from_has_word)
qed

lemma trim_nonempty_iff: "trim s \<noteq> [] \<longleftrightarrow> (\<exists>c \<in> set s. \<not> is_space c)"
proof -
  have "trim s \<noteq> [] \<longleftrightarrow> (\<exists>x \<in> set (rev (dropWhile is_space s)). \<not> is_space x)"
    by (simp add: trim_def)
  also have "\<dots> \<longleftrightarrow> (\<exists>x \<in> set (dropWhile is_space s). \<not> is_space x)"
    by simp
  finally show ?thesis by (simp add: ex_dropWhile)
qed

lemma trim_no_outer_space:
  assumes "s \<noteq> []" and "\<not> is_space (hd s)" and "\<not> is_space (last s)"
  shows "trim s = s"
proof -
  from assms have front: "dropWhile is_space s = s"
    by (cases s) auto
  from assms have "rev s \<noteq> []" and "\<not> is_space (hd (rev s))"
    by (auto simp: hd_rev)
  then have rear: "dropWhile is_space (rev s) = rev s"
    by (cases "rev s") auto
  show ?thesis by (simp add: trim_def front rear)
qed

section \<open>Code fences\<close>

lemma cleanText_fenced: "cleanText (fenced s) = s"
proof -
  have t: "trim (fenced s) = fenced s"
    by (rule trim_no_outer_space) (simp_all add: fenced_def is_space_def)
  have sw: "startsWith (fenced s) ''```json''"
    by (simp add: fenced_def startsWith_def)
  have ro: "replace_open ''```json'' (fenced s) = s @ [CHR 0x0A] @ ''```''"
    by (simp add: fenced_def replace_open_def startsWith_def)
  have rc: "replace_close (s @ [CHR 0x0A] @ ''```'') = s"
    by (simp add: replace_close_def endsWith_def)
  show ?thesis
    unfolding cleanText_def Let_def t using sw by (simp only: if_True ro rc)
qed

lemma cleanText_unfenced:
  assumes "s \<noteq> []" and "\<not> is_space (hd s)" and "\<not> is_space (last s)"
    and "hd s \<noteq> CHR 0x60"
  shows "cleanText s = s"
proof -
  have t: "trim s = s"
    using assms(1-3) by (rule trim_no_outer_space)
  from assms(1,4) have "\<not> startsWith s ''```json''" and "\<not> startsWith s ''```''"
    by (cases s; simp add: startsWith_def)+
  then show ?thesis
    by (simp add: cleanText_def t)
qed

section \<open>Reports as objects\<close>

lemma getProp_update:
  "getProp (JObj (AList.update k v al)) k' = (if k' = k then v else getProp (JObj al) k')"
  by (simp add: getProp_def update_conv')

lemma getProp_ownProperties: "getProp (JObj (ownProperties v)) k = getProp v k"
  by (simp add: getProp_def)

lemma list_all_is_str: "list_all is_str (map JStr xs)"
  by (induction xs) auto

lemma populated_AnswerAnalysis: "populated (js_of_AnswerAnalysis a)"
  by (cases "efficiency (timeManagement a)")
     (simp_all add: populated_def js_of_AnswerAnalysis_def getProp_def Let_def
        list_all_is_str js_of_Efficiency_def)

lemma analyzeAnswer_Inr:
  assumes "analyzeAnswer w request = Inr report"
  obtains a where "analysisResult w = Inr a" and "\<not> nullish a"
    and "report = JObj
        (AList.update ''processingTime'' (JNum (real_of_int (now_received w - now_start w)))
          (AList.update ''timeManagement''
             (JObj (AList.update ''duration'' (JNum (audioDuration request))
                      (ownProperties (getProp a ''timeManagement''))))
            (AList.update ''transcript'' (JStr (req_transcript request))
               (ownProperties a))))"
  using assms
  by (auto simp: analyzeAnswer_def buildReport_def split: sum.splits if_splits)

lemma populated_supplied: "populated a \<Longrightarrow> remote_supplied a"
  by (simp add: populated_def remote_supplied_def Let_def)

lemma populated_overlay:
  assumes "report = JObj
        (AList.update ''processingTime'' (JNum elapsed)
          (AList.update ''timeManagement''
             (JObj (AList.update ''duration'' (JNum dur)
                      (ownProperties (getProp a ''timeManagement''))))
            (AList.update ''transcript'' (JStr text)
               (ownProperties a))))"
  shows "populated report \<longleftrightarrow> remote_supplied a"
proof -
  have top: "getProp report k = getProp a k"
    if "k \<notin> {''transcript'', ''timeManagement'', ''processingTime''}" for k
    using that by (simp add: assms getProp_update getProp_ownProperties)
  have tm: "getProp report ''timeManagement''
              = JObj (AList.update ''duration'' (JNum dur)
                        (ownProperties (getProp a ''timeManagement'')))"
    by (simp add: assms getProp_update)
  have sub: "getProp (getProp report ''timeManagement'') k = getProp (getProp a ''timeManagement'') k"
    if "k \<noteq> ''duration''" for k
    using that by (simp add: tm getProp_update getProp_ownProperties)
  have own: "is_str (getProp report ''transcript'')"
    "is_num (getProp (getProp report ''timeManagement'') ''duration'')"
    "is_num (getProp report ''processingTime'')"
    by (simp_all add: assms getProp_update)
  have 1: "getProp report ''overallScore'' = getProp a ''overallScore''"
    and 2: "getProp report ''feedback'' = getProp a ''feedback''"
    and 3: "getProp report ''scores'' = getProp a ''scores''"
    and 4: "getProp report ''keyPoints'' = getProp a ''keyPoints''"
    by (simp_all add: top)
  have 5: "getProp (getProp report ''timeManagement'') ''efficiency''
             = getProp (getProp a ''timeManagement'') ''efficiency''"
    and 6: "getProp (getProp report ''timeManagement'') ''pacing''
             = getProp (getProp a ''timeManagement'') ''pacing''"
    by (simp_all add: sub)
  show ?thesis
    unfolding populated_def remote_supplied_def Let_def 1 2 3 4 5 6
    using own by simp
qed

lemma processAudioResponse_cases:
  "processAudioResponse w request =
     (if trim (req_transcript request) \<noteq> [] \<and> \<not> isl (analyzeAnswer w request)
      then analyzeAnswer w request
      else Inr (js_of_AnswerAnalysis (staticFallback request)))"
  by (cases "analyzeAnswer w request") (simp_all add: processAudioResponse_def)

section \<open>The sample worlds, evaluated\<close>

lemma sample_parse_candidates:
  "sample_parse candidates_body =
     Some (JObj [(''candidates'',
       JArr [JObj [(''content'',
         JObj [(''parts'', JArr [JObj [(''text'', JStr (fenced remote_json))]])])]])])"
  by (simp add: sample_parse_def candidates_body_def json_quote_def fenced_def remote_json_def
        bare_body_def oops_body_def)

lemma sample_parse_remote: "sample_parse remote_json = Some remote_value"
  by (simp add: sample_parse_def remote_json_def bare_body_def oops_body_def)

lemma sample_parse_bare: "sample_parse bare_body = Some (JObj [(''text'', JStr ''{}'')])"
  by (simp add: sample_parse_def bare_body_def)

lemma sample_parse_oops: "sample_parse oops_body = Some (JObj [(''text'', JStr ''oops'')])"
  by (simp add: sample_parse_def bare_body_def oops_body_def)

lemma sample_parse_empty_object: "sample_parse ''{}'' = Some (JObj [])"
  by (simp add: sample_parse_def)

lemma sample_parse_not_json: "sample_parse ''oops'' = None"
  by (simp add: sample_parse_def candidates_body_def json_quote_def fenced_def remote_json_def
        bare_body_def oops_body_def full_json_def full_body_def)

lemma sample_parse_full_body:
  "sample_parse full_body = Some (JObj [(''response'', JStr full_json)])"
  by (simp add: sample_parse_def full_body_def candidates_body_def remote_json_def
        bare_body_def oops_body_def full_json_def)

lemma sample_parse_full: "sample_parse full_json = Some full_value"
  by (simp add: sample_parse_def full_json_def candidates_body_def remote_json_def
        bare_body_def oops_body_def)

lemma cleanText_full: "cleanText full_json = full_json"
  by (rule cleanText_unfenced) (simp_all add: full_json_def is_space_def)

lemma fetchData_sample_ok:
  "fetchData (sample_world 200 b) =
     (case sample_parse b of None \<Rightarrow> Inl SyntaxError | Some data \<Rightarrow> Inr data)"
  by (simp add: fetchData_def sendPrompt_def sample_world_def ok_def)

lemma sample_world_simps:
  "JSON_parse (sample_world st b) = sample_parse"
  "now_received (sample_world st b) - now_start (sample_world st b) = 750"
  by (simp_all add: sample_world_def)

lemma sample_request_simps:
  "req_transcript (sample_request text) = text"
  "audioDuration (sample_request text) = 5"
  "audioBlob (sample_request text) = None"
  "audioLevelData (sample_request text) = None"
  by (simp_all add: sample_request_def)

lemma cleanText_plain: "cleanText ''{}'' = ''{}''" "cleanText ''oops'' = ''oops''"
  by (simp_all add: cleanText_def trim_def is_space_def startsWith_def)

lemma analysisResult_candidates: "analysisResult (sample_world 200 candidates_body) = Inr remote_value"
proof -
  have "fenced remote_json \<noteq> []"
    by (simp add: fenced_def)
  then show ?thesis
    by (simp add: analysisResult_def fetchData_sample_ok sample_parse_candidates
          extractAnalysisText_def directText_def getProp_def optGet_def cleanText_fenced
          sample_parse_remote sample_world_simps show_nat.simps)
qed

lemma analysisResult_bare: "analysisResult (sample_world 200 bare_body) = Inr (JObj [])"
  by (simp add: analysisResult_def fetchData_sample_ok sample_parse_bare
        extractAnalysisText_def directText_def getProp_def optGet_def cleanText_plain
        sample_parse_empty_object sample_world_simps)

lemma analyzeAnswer_candidates:
  "analyzeAnswer (sample_world 200 candidates_body) (sample_request text) = Inr (remote_report text)"
  by (simp add: analyzeAnswer_def analysisResult_candidates buildReport_def remote_value_def
        getProp_def sample_world_simps sample_request_simps remote_report_def)

lemma analyzeAnswer_bare:
  "analyzeAnswer (sample_world 200 bare_body) (sample_request text) = Inr (bare_report text)"
  by (simp add: analyzeAnswer_def analysisResult_bare buildReport_def
        getProp_def sample_world_simps sample_request_simps bare_report_def)

lemma analyzeAnswer_http500:
  "analyzeAnswer (sample_world 500 ''Internal Server Error'') request =
     Inl (Error ''Gemini API error (500): Internal Server Error'')"
  by (simp add: analyzeAnswer_def analysisResult_def fetchData_def sendPrompt_def
        sample_world_def ok_def show_nat.simps)

lemma analysisResult_full: "analysisResult (sample_world 200 full_body) = Inr full_value"
proof -
  have "full_json \<noteq> []"
    by (simp add: full_json_def)
  then show ?thesis
    by (simp add: analysisResult_def fetchData_sample_ok sample_parse_full_body
          extractAnalysisText_def directText_def getProp_def optGet_def cleanText_full
          sample_parse_full sample_world_simps)
qed

lemma analyzeAnswer_full:
  "analyzeAnswer (sample_world 200 full_body) (sample_request text) = Inr (full_report text)"
  by (simp add: analyzeAnswer_def analysisResult_full buildReport_def full_value_def
        getProp_def sample_world_simps sample_request_simps full_report_def)

lemma populated_full_value: "populated full_value"
  by (simp add: populated_def full_value_def getProp_def js_of_Efficiency_def)

lemma trim_hi: "trim ''hi'' = ''hi''" "trim '' '' = []"
  by (simp_all add: trim_def is_space_def)

section \<open>The orchestrator returns a report\<close>

text \<open>
  C1, as stated: for every request, \<open>processAudioResponse\<close> returns a report with every field
  populated. This fails where the remote text is valid JSON that lacks fields: for a
  reply whose text is \<open>{}\<close>, the client returns an object with \<open>transcript\<close>,
  \<open>timeManagement.duration\<close> and \<open>processingTime\<close> only, and the orchestrator passes it on.
\<close>

theorem processAudioResponse_unpopulated_report:
  "processAudioResponse (sample_world 200 bare_body) (sample_request ''hi'')
     = Inr (bare_report ''hi'')
   \<and> getProp (bare_report ''hi'') ''overallScore'' = JUndefined
   \<and> \<not> populated (bare_report ''hi'')"
  by (simp add: processAudioResponse_def sample_request_simps trim_hi analyzeAnswer_bare)
     (simp add: bare_report_def populated_def getProp_def)

text \<open>
  C1, amended: for every request and every outcome of the remote call,
  \<open>processAudioResponse\<close> raises no error and returns one report. When the transcript has a
  character that is not white space and the remote client succeeds, it is the remote
  client's report: \<open>transcript\<close>, \<open>timeManagement.duration\<close> and \<open>processingTime\<close> are
  populated, every other field is that of the remote JSON, and so every field of the
  report is populated exactly when the remote JSON has every other field with a value of
  its type, in particular whenever the remote JSON is itself a fully populated report.
  Otherwise it is the report of the heuristic scorer, on the audio metrics when they were
  computed and on the metrics of the transcript alone when not, with every field
  populated.
\<close>

theorem processAudioResponse_returns_report:
  "\<exists>report. processAudioResponse w request = Inr report
     \<and> (if trim (req_transcript request) \<noteq> [] \<and> \<not> isl (analyzeAnswer w request)
        then analyzeAnswer w request = Inr report
           \<and> is_str (getProp report ''transcript'')
           \<and> is_num (getProp (getProp report ''timeManagement'') ''duration'')
           \<and> is_num (getProp report ''processingTime'')
           \<and> (\<exists>a. analysisResult w = Inr a
                \<and> (\<forall>k. k \<notin> {''transcript'', ''timeManagement'', ''processingTime''}
                       \<longrightarrow> getProp report k = getProp a k)
                \<and> (\<forall>k. k \<noteq> ''duration''
                       \<longrightarrow> getProp (getProp report ''timeManagement'') k
                           = getProp (getProp a ''timeManagement'') k)
                \<and> (populated report \<longleftrightarrow> remote_supplied a)
                \<and> (populated a \<longrightarrow> populated report))
        else report = js_of_AnswerAnalysis (generateStaticAnalysis
               (case audioMetrics_of request of
                  Some metrics \<Rightarrow> metrics
                | None \<Rightarrow> transcriptMetrics request))
           \<and> populated report)"
proof (cases "trim (req_transcript request) \<noteq> [] \<and> \<not> isl (analyzeAnswer w request)")
  case True
  then obtain report where r: "analyzeAnswer w request = Inr report"
    by (cases "analyzeAnswer w request") auto
  from r obtain a where a: "analysisResult w = Inr a"
    and rep: "report = JObj
        (AList.update ''processingTime'' (JNum (real_of_int (now_received w - now_start w)))
          (AList.update ''timeManagement''
             (JObj (AList.update ''duration'' (JNum (audioDuration request))
                      (ownProperties (getProp a ''timeManagement''))))
            (AList.update ''transcript'' (JStr (req_transcript request))
               (ownProperties a))))"
    by (rule analyzeAnswer_Inr)
  from rep have own: "is_str (getProp report ''transcript'')"
    "is_num (getProp (getProp report ''timeManagement'') ''duration'')"
    "is_num (getProp report ''processingTime'')"
    by (simp_all add: getProp_update)
  have top: "getProp report k = getProp a k"
    if "k \<notin> {''transcript'', ''timeManagement'', ''processingTime''}" for k
    using that by (simp add: rep getProp_update getProp_ownProperties)
  have sub: "getProp (getProp report ''timeManagement'') k
               = getProp (getProp a ''timeManagement'') k"
    if "k \<noteq> ''duration''" for k
    using that by (simp add: rep getProp_update getProp_ownProperties)
  have iff: "populated report \<longleftrightarrow> remote_supplied a"
    using rep by (rule populated_overlay)
  then have imp: "populated a \<longrightarrow> populated report"
    by (simp add: populated_supplied)
  have "\<exists>a. analysisResult w = Inr a
          \<and> (\<forall>k. k \<notin> {''transcript'', ''timeManagement'', ''processingTime''}
                 \<longrightarrow> getProp report k = getProp a k)
          \<and> (\<forall>k. k \<noteq> ''duration''
                 \<longrightarrow> getProp (getProp report ''timeManagement'') k
                     = getProp (getProp a ''timeManagement'') k)
          \<and> (populated report \<longleftrightarrow> remote_supplied a)
          \<and> (populated a \<longrightarrow> populated report)"
    using a top sub iff imp by blast
  with True r own show ?thesis
    by (simp add: processAudioResponse_cases)
next
  case False
  have "staticFallback request = generateStaticAnalysis
          (case audioMetrics_of request of
             Some metrics \<Rightarrow> metrics
           | None \<Rightarrow> transcriptMetrics request)"
    by (simp add: staticFallback_def static_analyzeAnswer_def split: option.splits)
  with False show ?thesis
    by (auto simp: processAudioResponse_cases populated_AnswerAnalysis)
qed

theorem processAudioResponse_returns_report_witness:
  "populated full_value
   \<and> processAudioResponse (sample_world 200 full_body) (sample_request ''hi'')
     = Inr (full_report ''hi'')
   \<and> populated (full_report ''hi'')
   \<and> \<not> remote_supplied remote_value
   \<and> processAudioResponse (sample_world 200 candidates_body) (sample_request ''hi'')
     = Inr (remote_report ''hi'')
   \<and> \<not> populated (remote_report ''hi'')
   \<and> processAudioResponse (sample_world 500 ''Internal Server Error'') (sample_request '''')
     = Inr (js_of_AnswerAnalysis (generateStaticAnalysis (transcriptMetrics (sample_request ''''))))
   \<and> populated (js_of_AnswerAnalysis (generateStaticAnalysis (transcriptMetrics (sample_request ''''))))"
proof -
  have t: "trim (req_transcript (sample_request ''hi'')) \<noteq> []"
    by (simp add: sample_request_simps trim_hi)
  have pf: "populated full_value"
    by (rule populated_full_value)
  from t pf processAudioResponse_returns_report
              [of "sample_world 200 full_body" "sample_request ''hi''"]
  have 1: "processAudioResponse (sample_world 200 full_body) (sample_request ''hi'')
             = Inr (full_report ''hi'')
           \<and> populated (full_report ''hi'')"
    by (auto simp: analyzeAnswer_full analysisResult_full)
  have ns: "\<not> remote_supplied remote_value"
    by (simp add: remote_supplied_def remote_value_def getProp_def)
  from t ns processAudioResponse_returns_report
              [of "sample_world 200 candidates_body" "sample_request ''hi''"]
  have 2: "processAudioResponse (sample_world 200 candidates_body) (sample_request ''hi'')
             = Inr (remote_report ''hi'')
           \<and> \<not> populated (remote_report ''hi'')"
    by (auto simp: analyzeAnswer_candidates analysisResult_candidates)
  from processAudioResponse_returns_report
         [of "sample_world 500 ''Internal Server Error''" "sample_request ''''"]
  have 3: "processAudioResponse (sample_world 500 ''Internal Server Error'') (sample_request '''')
     = Inr (js_of_AnswerAnalysis (generateStaticAnalysis (transcriptMetrics (sample_request ''''))))
   \<and> populated (js_of_AnswerAnalysis (generateStaticAnalysis (transcriptMetrics (sample_request ''''))))"
    by (auto simp: analyzeAnswer_http500 audioMetrics_of_def sample_request_simps)
  from pf 1 ns 2 3 show ?thesis by blast
qed

section \<open>The heuristic scorer\<close>

text \<open>
  C2: for every metrics value, \<open>generateStaticAnalysis\<close> returns the overall score 0 when
  voice is absent, 20 when voice is present and the duration is below 10 seconds, and 50
  otherwise; the sub-scores are clarity 60, relevance 50, structure 40, completeness 30 and
  confidence 50 when voice is present and all 0 when it is absent; so the overall score is
  one of 0, 20, 50 and every sub-score lies between 0 and 100.
\<close>

theorem generateStaticAnalysis_scores:
  "overallScore (generateStaticAnalysis m)
     = (if \<not> hasVoice m then 0 else if duration m < 10 then 20 else 50)
   \<and> scores (generateStaticAnalysis m)
     = (if hasVoice m
        then \<lparr>clarity = 60, relevance = 50, structure = 40, completeness = 30, confidence = 50\<rparr>
        else \<lparr>clarity = 0, relevance = 0, structure = 0, completeness = 0, confidence = 0\<rparr>)
   \<and> overallScore (generateStaticAnalysis m) \<in> {0, 20, 50}
   \<and> 0 \<le> clarity (scores (generateStaticAnalysis m))
   \<and> clarity (scores (generateStaticAnalysis m)) \<le> 100
   \<and> 0 \<le> relevance (scores (generateStaticAnalysis m))
   \<and> relevance (scores (generateStaticAnalysis m)) \<le> 100
   \<and> 0 \<le> structure (scores (generateStaticAnalysis m))
   \<and> structure (scores (generateStaticAnalysis m)) \<le> 100
   \<and> 0 \<le> completeness (scores (generateStaticAnalysis m))
   \<and> completeness (scores (generateStaticAnalysis m)) \<le> 100
   \<and> 0 \<le> confidence (scores (generateStaticAnalysis m))
   \<and> confidence (scores (generateStaticAnalysis m)) \<le> 100"
  by (simp add: generateStaticAnalysis_def Let_def)

section \<open>The metrics extractor\<close>

text \<open>
  C3: the word count is above 0 exactly when the transcript has a character that is not
  white space, that is, at least one non-empty token between white space; and whenever it
  is, \<open>analyzeAudioMetrics\<close> reports voice, whatever the byte size, the duration
  and the levels.
\<close>

theorem analyzeAudioMetrics_words_are_voice:
  "(countWords text > 0 \<longleftrightarrow> (\<exists>c \<in> set text. \<not> is_space c))
   \<and> (countWords text > 0 \<longrightarrow> hasVoice (analyzeAudioMetrics blob dur text levels))"
  by (simp add: countWords_pos_iff analyzeAudioMetrics_def Let_def)

theorem analyzeAudioMetrics_words_are_voice_witness:
  "countWords ''hello world'' > 0
   \<and> hasVoice (analyzeAudioMetrics \<lparr>blob_size = 0\<rparr> 0 ''hello world''
                 \<lparr>lvl_maxRms = 0, sumRms = 0, frames = 0\<rparr>)"
proof -
  have h: "countWords ''hello world'' > 0"
    by (simp add: countWords_def split_ws_def is_space_def)
  with analyzeAudioMetrics_words_are_voice
         [of "''hello world''" "\<lparr>blob_size = 0\<rparr>" 0
             "\<lparr>lvl_maxRms = 0, sumRms = 0, frames = 0\<rparr>"]
  show ?thesis by blast
qed

text \<open>
  C4: whenever the transcript has no word (every character of it is white space) and the
  audio is smaller than 2000 bytes, \<open>analyzeAudioMetrics\<close> reports no voice, whatever
  the duration and the levels; in particular for 5 seconds, the empty transcript and 500
  bytes.
\<close>

theorem analyzeAudioMetrics_no_words_small_blob:
  "(countWords text = 0 \<longleftrightarrow> (\<forall>c \<in> set text. is_space c))
   \<and> (countWords text = 0 \<and> blob_size blob < 2000
      \<longrightarrow> \<not> hasVoice (analyzeAudioMetrics blob dur text levels))
   \<and> (\<forall>lv. \<not> hasVoice (analyzeAudioMetrics \<lparr>blob_size = 500\<rparr> 5 '''' lv))"
proof -
  have 1: "countWords text = 0 \<longleftrightarrow> (\<forall>c \<in> set text. is_space c)"
    using countWords_pos_iff [of "text"] by auto
  have 2: "\<not> hasVoice (analyzeAudioMetrics blob dur text levels)"
    if "countWords text = 0 \<and> blob_size blob < 2000"
    using that by (simp add: analyzeAudioMetrics_def Let_def)
  have "countWords '''' = 0"
    by (simp add: countWords_def split_ws_def)
  then have 3: "\<not> hasVoice (analyzeAudioMetrics \<lparr>blob_size = 500\<rparr> 5 '''' lv)" for lv
    by (simp add: analyzeAudioMetrics_def Let_def)
  from 1 2 3 show ?thesis by blast
qed

theorem analyzeAudioMetrics_no_words_small_blob_witness:
  "countWords ''  '' = 0 \<and> blob_size \<lparr>blob_size = 1999\<rparr> < 2000
   \<and> \<not> hasVoice (analyzeAudioMetrics \<lparr>blob_size = 1999\<rparr> 6 ''  ''
                   \<lparr>lvl_maxRms = 1, sumRms = 40, frames = 80\<rparr>)"
proof -
  have h: "countWords ''  '' = 0 \<and> blob_size \<lparr>blob_size = 1999\<rparr> < 2000"
    by (simp add: countWords_def split_ws_def is_space_def)
  with analyzeAudioMetrics_no_words_small_blob
         [of "''  ''" "\<lparr>blob_size = 1999\<rparr>" 6 "\<lparr>lvl_maxRms = 1, sumRms = 40, frames = 80\<rparr>"]
  show ?thesis by blast
qed

section \<open>The remote analysis client\<close>

text \<open>
  C5: the remote analysis client fails, handing an error to its caller instead of a
  report, (a) whenever the response has a status outside 200 to 299, the error carrying
  the first 100 code units of the body, (b) whenever the decoded response has none of the
  three recognised shapes (\<open>candidates[0].content.parts[0].text\<close>, \<open>text\<close>, \<open>response\<close>),
  and (c) whenever the extracted text, after the fences are removed, is not JSON. A
  failure is a value \<open>Inl e\<close>, which holds an error and no report; and (d) a report is
  returned only when the status was a success, a shape gave a string and that string
  parsed.
\<close>

theorem analyzeAnswer_fails:
  "(sendPrompt w = Inr response \<and> \<not> ok response \<longrightarrow>
      analyzeAnswer w request
        = Inl (Error (''Gemini API error ('' @ show_nat (status response) @ ''): ''
                      @ take 100 (body response))))
   \<and> (fetchData w = Inr data
       \<and> \<not> (truthy (getProp data ''candidates'') \<and> truthy (directText data))
       \<and> \<not> truthy (getProp data ''text'') \<and> \<not> truthy (getProp data ''response'') \<longrightarrow>
      analyzeAnswer w request
        = Inl (if nullish data then TypeError
               else Error ''No analysis results received from Gemini''))
   \<and> (fetchData w = Inr data \<and> extractAnalysisText data = Inr (JStr s)
       \<and> JSON_parse w (cleanText s) = None \<longrightarrow>
      analyzeAnswer w request = Inl SyntaxError)
   \<and> (analyzeAnswer w request = Inr report \<longrightarrow>
      (\<exists>resp d s' a. sendPrompt w = Inr resp \<and> ok resp \<and> JSON_parse w (body resp) = Some d
         \<and> extractAnalysisText d = Inr (JStr s') \<and> JSON_parse w (cleanText s') = Some a))"
proof -
  have a: "analyzeAnswer w request
        = Inl (Error (''Gemini API error ('' @ show_nat (status response) @ ''): ''
                      @ take 100 (body response)))"
    if "sendPrompt w = Inr response \<and> \<not> ok response"
    using that by (simp add: analyzeAnswer_def analysisResult_def fetchData_def)
  have b: "analyzeAnswer w request
        = Inl (if nullish data then TypeError
               else Error ''No analysis results received from Gemini'')"
    if "fetchData w = Inr data
       \<and> \<not> (truthy (getProp data ''candidates'') \<and> truthy (directText data))
       \<and> \<not> truthy (getProp data ''text'') \<and> \<not> truthy (getProp data ''response'')"
    using that by (auto simp: analyzeAnswer_def analysisResult_def extractAnalysisText_def)
  have c: "analyzeAnswer w request = Inl SyntaxError"
    if "fetchData w = Inr data \<and> extractAnalysisText data = Inr (JStr s)
       \<and> JSON_parse w (cleanText s) = None"
    using that by (simp add: analyzeAnswer_def analysisResult_def)
  have d: "\<exists>resp d s' a. sendPrompt w = Inr resp \<and> ok resp \<and> JSON_parse w (body resp) = Some d
         \<and> extractAnalysisText d = Inr (JStr s') \<and> JSON_parse w (cleanText s') = Some a"
    if "analyzeAnswer w request = Inr report"
  proof -
    from that obtain a where "analysisResult w = Inr a"
      by (rule analyzeAnswer_Inr)
    then show ?thesis
      by (auto simp: analysisResult_def fetchData_def
            split: sum.splits option.splits jsval.splits if_splits)
  qed
  from a b c d show ?thesis by blast
qed

theorem analyzeAnswer_fails_witness:
  "\<not> ok \<lparr>status = 500, body = replicate 120 CHR ''x''\<rparr>
   \<and> analyzeAnswer (sample_world 500 (replicate 120 CHR ''x'')) (sample_request ''hi'')
       = Inl (Error (''Gemini API error (500): '' @ replicate 100 CHR ''x''))
   \<and> fetchData (sample_world 200 ''{}'') = Inr (JObj [])
   \<and> analyzeAnswer (sample_world 200 ''{}'') (sample_request ''hi'')
       = Inl (Error ''No analysis results received from Gemini'')
   \<and> extractAnalysisText (JObj [(''text'', JStr ''oops'')]) = Inr (JStr ''oops'')
   \<and> sample_parse (cleanText ''oops'') = None
   \<and> analyzeAnswer (sample_world 200 oops_body) (sample_request ''hi'') = Inl SyntaxError
   \<and> analyzeAnswer (sample_world 200 candidates_body) (sample_request ''hi'')
       = Inr (remote_report ''hi'')
   \<and> ok \<lparr>status = 200, body = candidates_body\<rparr>"
proof -
  have a: "sendPrompt (sample_world 500 (replicate 120 CHR ''x''))
             = Inr \<lparr>status = 500, body = replicate 120 CHR ''x''\<rparr>
           \<and> \<not> ok \<lparr>status = 500, body = replicate 120 CHR ''x''\<rparr>"
    by (simp add: sendPrompt_def sample_world_def ok_def)
  have b: "fetchData (sample_world 200 ''{}'') = Inr (JObj [])
           \<and> \<not> (truthy (getProp (JObj []) ''candidates'') \<and> truthy (directText (JObj [])))
           \<and> \<not> truthy (getProp (JObj []) ''text'')
           \<and> \<not> truthy (getProp (JObj []) ''response'')"
    by (simp add: fetchData_sample_ok sample_parse_empty_object getProp_def)
  have c: "fetchData (sample_world 200 oops_body) = Inr (JObj [(''text'', JStr ''oops'')])
           \<and> extractAnalysisText (JObj [(''text'', JStr ''oops'')]) = Inr (JStr ''oops'')
           \<and> JSON_parse (sample_world 200 oops_body) (cleanText ''oops'') = None"
    by (simp add: fetchData_sample_ok sample_parse_oops extractAnalysisText_def getProp_def
          sample_world_simps cleanText_plain sample_parse_not_json)
  have d: "analyzeAnswer (sample_world 200 candidates_body) (sample_request ''hi'')
             = Inr (remote_report ''hi'')"
    by (rule analyzeAnswer_candidates)
  have s: "show_nat 500 = ''500''"
    by (simp add: show_nat.simps)
  have t: "take 100 (replicate 120 CHR ''x'') = replicate 100 CHR ''x''"
    by simp
  have f: "sendPrompt (sample_world 200 candidates_body)
             = Inr \<lparr>status = 200, body = candidates_body\<rparr>"
    by (simp add: sendPrompt_def sample_world_def)
  from a b c d
    analyzeAnswer_fails [of "sample_world 500 (replicate 120 CHR ''x'')"
      "\<lparr>status = 500, body = replicate 120 CHR ''x''\<rparr>" "sample_request ''hi''"]
    analyzeAnswer_fails [of "sample_world 200 ''{}''" _ "sample_request ''hi''" "JObj []"]
    analyzeAnswer_fails [of "sample_world 200 oops_body" _ "sample_request ''hi''"
      "JObj [(''text'', JStr ''oops'')]" "''oops''"]
    analyzeAnswer_fails [of "sample_world 200 candidates_body" _ "sample_request ''hi''" _ _
      "remote_report ''hi''"]
  show ?thesis
    by (auto simp: s t f sample_world_simps cleanText_plain sample_parse_not_json)
qed

text \<open>
  C6: when the remote analysis client succeeds, the report has the request's transcript
  as \<open>transcript\<close>, the request's measured duration as \<open>timeManagement.duration\<close> and the
  elapsed time as \<open>processingTime\<close>; every other field of the report, and every other
  field of its \<open>timeManagement\<close>, is that of the parsed remote JSON.
\<close>

theorem analyzeAnswer_overlay:
  assumes "analyzeAnswer w request = Inr report"
  shows "\<exists>a. analysisResult w = Inr a
     \<and> getProp report ''transcript'' = JStr (req_transcript request)
     \<and> getProp (getProp report ''timeManagement'') ''duration'' = JNum (audioDuration request)
     \<and> getProp report ''processingTime'' = JNum (real_of_int (now_received w - now_start w))
     \<and> (\<forall>k. k \<notin> {''transcript'', ''timeManagement'', ''processingTime''}
            \<longrightarrow> getProp report k = getProp a k)
     \<and> (\<forall>k. k \<noteq> ''duration''
            \<longrightarrow> getProp (getProp report ''timeManagement'') k
                = getProp (getProp a ''timeManagement'') k)"
proof -
  from assms obtain a where a: "analysisResult w = Inr a"
    and r: "report = JObj
        (AList.update ''processingTime'' (JNum (real_of_int (now_received w - now_start w)))
          (AList.update ''timeManagement''
             (JObj (AList.update ''duration'' (JNum (audioDuration request))
                      (ownProperties (getProp a ''timeManagement''))))
            (AList.update ''transcript'' (JStr (req_transcript request))
               (ownProperties a))))"
    by (rule analyzeAnswer_Inr)
  have 1: "getProp report ''transcript'' = JStr (req_transcript request)"
    by (simp add: r getProp_update)
  have tm: "getProp report ''timeManagement''
              = JObj (AList.update ''duration'' (JNum (audioDuration request))
                        (ownProperties (getProp a ''timeManagement'')))"
    by (simp add: r getProp_update)
  have 2: "getProp (getProp report ''timeManagement'') ''duration'' = JNum (audioDuration request)"
    by (simp add: tm getProp_update)
  have 3: "getProp report ''processingTime'' = JNum (real_of_int (now_received w - now_start w))"
    by (simp add: r getProp_update)
  have 4: "getProp report k = getProp a k"
    if "k \<notin> {''transcript'', ''timeManagement'', ''processingTime''}" for k
    using that by (simp add: r getProp_update getProp_ownProperties)
  have 5: "getProp (getProp report ''timeManagement'') k = getProp (getProp a ''timeManagement'') k"
    if "k \<noteq> ''duration''" for k
    using that by (simp add: tm getProp_update getProp_ownProperties)
  from a 1 2 3 4 5 show ?thesis by blast
qed

theorem analyzeAnswer_overlay_witness:
  "analyzeAnswer (sample_world 200 candidates_body) (sample_request ''hi'') = Inr (remote_report ''hi'')
   \<and> analysisResult (sample_world 200 candidates_body) = Inr remote_value
   \<and> getProp remote_value ''transcript'' = JStr ''restated''
   \<and> getProp (remote_report ''hi'') ''transcript'' = JStr ''hi''
   \<and> getProp (getProp remote_value ''timeManagement'') ''duration'' = JNum 1
   \<and> getProp (getProp (remote_report ''hi'') ''timeManagement'') ''duration'' = JNum 5
   \<and> getProp (remote_report ''hi'') ''processingTime'' = JNum 750
   \<and> getProp (remote_report ''hi'') ''overallScore'' = getProp remote_value ''overallScore''
   \<and> getProp (getProp (remote_report ''hi'') ''timeManagement'') ''pacing''
       = getProp (getProp remote_value ''timeManagement'') ''pacing''"
proof -
  have h: "analyzeAnswer (sample_world 200 candidates_body) (sample_request ''hi'')
             = Inr (remote_report ''hi'')"
    by (rule analyzeAnswer_candidates)
  have v: "getProp remote_value ''transcript'' = JStr ''restated''"
    "getProp (getProp remote_value ''timeManagement'') ''duration'' = JNum 1"
    by (simp_all add: remote_value_def getProp_def)
  from analyzeAnswer_overlay [OF h] h v show ?thesis
    by (auto simp: analysisResult_candidates sample_request_simps sample_world_simps)
qed

section \<open>Remote first, then the fallback\<close>

text \<open>
  C7, as stated: for every request whose transcript is not empty, the orchestrator tries
  the remote client first and returns its report when it succeeds. This fails for a
  transcript of one space: it is not empty, the remote client would succeed, and the
  orchestrator returns the heuristic report without calling it, since the source tests
  \<open>request.transcript.trim().length > 0\<close>.
\<close>

theorem processAudioResponse_blank_transcript:
  "req_transcript (sample_request '' '') \<noteq> []
   \<and> analyzeAnswer (sample_world 200 candidates_body) (sample_request '' '')
       = Inr (remote_report '' '')
   \<and> processAudioResponse (sample_world 200 candidates_body) (sample_request '' '')
       = Inr (js_of_AnswerAnalysis (static_analyzeAnswer (sample_request '' '')))
   \<and> getProp (js_of_AnswerAnalysis (static_analyzeAnswer (sample_request '' ''))) ''overallScore''
       = JNum 0
   \<and> getProp (remote_report '' '') ''overallScore'' = JNum 80"
proof -
  have "processAudioResponse (sample_world 200 candidates_body) (sample_request '' '')
          = Inr (js_of_AnswerAnalysis (static_analyzeAnswer (sample_request '' '')))"
    by (simp add: processAudioResponse_def sample_request_simps trim_hi staticFallback_def
          audioMetrics_of_def)
  moreover have "countWords '' '' = 0"
    by (simp add: countWords_def split_ws_def is_space_def)
  then have "getProp (js_of_AnswerAnalysis (static_analyzeAnswer (sample_request '' '')))
               ''overallScore'' = JNum 0"
    by (simp add: js_of_AnswerAnalysis_def getProp_def static_analyzeAnswer_def
          transcriptMetrics_def generateStaticAnalysis_def sample_request_simps Let_def)
  moreover have "getProp (remote_report '' '') ''overallScore'' = JNum 80"
    by (simp add: remote_report_def getProp_def)
  ultimately show ?thesis
    by (simp add: sample_request_simps analyzeAnswer_candidates)
qed

text \<open>
  C7, amended: for every request whose transcript has a character that is not white space
  (it is not empty after \<open>trim\<close>), the outcome of the remote client decides first: when it
  succeeds, its report is returned as it is, and the static fallback is returned only
  when it fails.
\<close>

theorem processAudioResponse_remote_first:
  assumes "trim (req_transcript request) \<noteq> []"
  shows "(analyzeAnswer w request = Inr report
            \<longrightarrow> processAudioResponse w request = Inr report)
       \<and> (analyzeAnswer w request = Inl e
            \<longrightarrow> processAudioResponse w request
                = Inr (js_of_AnswerAnalysis (staticFallback request)))"
  using assms by (simp add: processAudioResponse_def)

theorem processAudioResponse_remote_first_witness:
  "trim (req_transcript (sample_request ''hi'')) \<noteq> []
   \<and> analyzeAnswer (sample_world 200 candidates_body) (sample_request ''hi'')
       = Inr (remote_report ''hi'')
   \<and> processAudioResponse (sample_world 200 candidates_body) (sample_request ''hi'')
       = Inr (remote_report ''hi'')
   \<and> analyzeAnswer (sample_world 500 ''Internal Server Error'') (sample_request ''hi'')
       = Inl (Error ''Gemini API error (500): Internal Server Error'')
   \<and> processAudioResponse (sample_world 500 ''Internal Server Error'') (sample_request ''hi'')
       = Inr (js_of_AnswerAnalysis (staticFallback (sample_request ''hi'')))"
proof -
  have h: "trim (req_transcript (sample_request ''hi'')) \<noteq> []"
    by (simp add: sample_request_simps trim_hi)
  from h
    processAudioResponse_remote_first [OF h, of "sample_world 200 candidates_body"
      "remote_report ''hi''"]
    processAudioResponse_remote_first [OF h, of "sample_world 500 ''Internal Server Error''"
      _ "Error ''Gemini API error (500): Internal Server Error''"]
  show ?thesis
    by (simp add: analyzeAnswer_candidates analyzeAnswer_http500)
qed

text \<open>
  C8: removing the code fences from a text \<open>s\<close> wrapped as \<open>```json\<close>, line feed, \<open>s\<close>,
  line feed, \<open>```\<close> gives \<open>s\<close> back unchanged. This holds for every \<open>s\<close>, also one that
  itself begins or ends with fence markers or white space.
\<close>

theorem cleanText_roundtrip:
  "cleanText (''```json'' @ [CHR 0x0A] @ s @ [CHR 0x0A] @ ''```'') = s"
  using cleanText_fenced [of s] by (simp only: fenced_def)

text \<open>
  C9: the orchestrator computes audio metrics exactly when the request has both the audio
  blob and the level data. When one of them is missing and the fallback is taken (the
  transcript is blank or the remote client fails), the report is the heuristic scorer's
  on metrics made from the transcript alone: voice is present exactly when the word count
  is above 0, and the peak and mean levels are 0.
\<close>

theorem processAudioResponse_transcript_only:
  "(audioMetrics_of request \<noteq> None
      \<longleftrightarrow> audioBlob request \<noteq> None \<and> audioLevelData request \<noteq> None)
   \<and> ((audioBlob request = None \<or> audioLevelData request = None)
       \<and> (trim (req_transcript request) = [] \<or> isl (analyzeAnswer w request))
      \<longrightarrow> processAudioResponse w request
            = Inr (js_of_AnswerAnalysis (generateStaticAnalysis (transcriptMetrics request)))
        \<and> hasVoice (transcriptMetrics request) = (countWords (req_transcript request) > 0)
        \<and> wordCount (transcriptMetrics request) = countWords (req_transcript request)
        \<and> maxRms (transcriptMetrics request) = 0
        \<and> avgRms (transcriptMetrics request) = 0)"
proof -
  have 1: "audioMetrics_of request \<noteq> None
             \<longleftrightarrow> audioBlob request \<noteq> None \<and> audioLevelData request \<noteq> None"
    by (simp add: audioMetrics_of_def split: option.splits)
  have 2: "staticFallback request = generateStaticAnalysis (transcriptMetrics request)"
    if "audioBlob request = None \<or> audioLevelData request = None"
    using that 1 by (auto simp: staticFallback_def static_analyzeAnswer_def split: option.splits)
  have 3: "processAudioResponse w request = Inr (js_of_AnswerAnalysis (staticFallback request))"
    if "trim (req_transcript request) = [] \<or> isl (analyzeAnswer w request)"
    using that by (auto simp: processAudioResponse_cases)
  have 4: "hasVoice (transcriptMetrics request) = (countWords (req_transcript request) > 0)
        \<and> wordCount (transcriptMetrics request) = countWords (req_transcript request)
        \<and> maxRms (transcriptMetrics request) = 0
        \<and> avgRms (transcriptMetrics request) = 0"
    by (simp add: transcriptMetrics_def Let_def)
  from 1 2 3 4 show ?thesis by simp
qed

theorem processAudioResponse_transcript_only_witness:
  "audioBlob ((sample_request ''so far so good'')\<lparr>audioBlob := Some \<lparr>blob_size = 90000\<rparr>\<rparr>) \<noteq> None
   \<and> audioLevelData ((sample_request ''so far so good'')\<lparr>audioBlob := Some \<lparr>blob_size = 90000\<rparr>\<rparr>) = None
   \<and> isl (analyzeAnswer (sample_world 500 ''Internal Server Error'')
            ((sample_request ''so far so good'')\<lparr>audioBlob := Some \<lparr>blob_size = 90000\<rparr>\<rparr>))
   \<and> audioMetrics_of ((sample_request ''so far so good'')\<lparr>audioBlob := Some \<lparr>blob_size = 90000\<rparr>\<rparr>) = None
   \<and> processAudioResponse (sample_world 500 ''Internal Server Error'')
        ((sample_request ''so far so good'')\<lparr>audioBlob := Some \<lparr>blob_size = 90000\<rparr>\<rparr>)
       = Inr (js_of_AnswerAnalysis (generateStaticAnalysis
           \<lparr>duration = 5, hasVoice = True, transcript = ''so far so good'', wordCount = 4,
            avgRms = 0, maxRms = 0\<rparr>))"
proof -
  let ?r = "(sample_request ''so far so good'')\<lparr>audioBlob := Some \<lparr>blob_size = 90000\<rparr>\<rparr>"
  have f: "req_transcript ?r = ''so far so good''" "audioDuration ?r = 5"
    "audioBlob ?r \<noteq> None" "audioLevelData ?r = None"
    by (simp_all add: sample_request_def)
  have c: "countWords ''so far so good'' = 4"
    by (simp add: countWords_def split_ws_def is_space_def)
  have m: "transcriptMetrics ?r
             = \<lparr>duration = 5, hasVoice = True, transcript = ''so far so good'', wordCount = 4,
                avgRms = 0, maxRms = 0\<rparr>"
    by (simp add: transcriptMetrics_def f c)
  from processAudioResponse_transcript_only [of ?r "sample_world 500 ''Internal Server Error''"]
  show ?thesis
    by (simp add: f m analyzeAnswer_http500)
qed

section \<open>Quick feedback\<close>

text \<open>
  C10: for every transcript and every duration, also 0 and negative ones,
  \<open>generateQuickFeedback\<close> returns an estimated score between 20 and 95, and 0 words per
  minute whenever the duration is at most 0.
\<close>

theorem generateQuickFeedback_bounds:
  "20 \<le> estimatedScore (generateQuickFeedback text dur)
   \<and> estimatedScore (generateQuickFeedback text dur) \<le> 95
   \<and> (dur \<le> 0 \<longrightarrow> wordsPerMinute (generateQuickFeedback text dur) = 0)"
  by (simp add: generateQuickFeedback_def Let_def)

theorem generateQuickFeedback_bounds_witness:
  "(- 3 :: real) \<le> 0
   \<and> wordsPerMinute (generateQuickFeedback ''one two three'' (- 3)) = 0
   \<and> estimatedScore (generateQuickFeedback ''one two three'' (- 3)) = 22"
proof -
  have c: "countWords ''one two three'' = 3"
    by (simp add: countWords_def split_ws_def is_space_def)
  have "js_round (3 / 100 * 80 + 20) = 22"
    unfolding js_round_def by linarith
  with c have "estimatedScore (generateQuickFeedback ''one two three'' (- 3)) = 22"
    by (simp add: generateQuickFeedback_def Let_def)
  with generateQuickFeedback_bounds [of "''one two three''" "- 3"] show ?thesis
    by simp
qed

end
